theory Spec2Isabelle
  imports Main "HOL-Library.Sublist" "HOL-Library.Multiset" "HOL-Library.AList"
begin

section \<open>Data model of the component (src/src/App.js)\<close>

text \<open>
  A suggestion as the backend returns it. The component reads \<open>_id\<close>, \<open>status\<close>,
  \<open>category\<close>, \<open>title\<close>, \<open>description\<close> and \<open>createdAt\<close>; the other fields are
  only displayed. \<open>title\<close> and \<open>description\<close> may be absent (the code reads them as
  \<open>s.title || ""\<close>), so they are options. \<open>s_createdAt\<close> is the time value of
  \<open>new Date(s.createdAt)\<close> in milliseconds; it is \<open>None\<close> when that date is invalid
  (\<open>createdAt\<close> is missing or is not a date), where the time value is \<open>NaN\<close>.
\<close>

record suggestion =
  s_id :: string
  s_title :: "string option"
  s_description :: "string option"
  s_category :: string
  s_status :: string
  s_email :: string
  s_department :: string
  s_updatedBy :: string
  s_createdAt :: "int option"
  s_updatedAt :: "int option"

text \<open>The object passed to \<open>setNotification\<close>: \<open>{ message: msg, type }\<close>.\<close>

record notice =
  message :: string
  type :: string

text \<open>A call of \<open>fetch\<close>: method, URL and the fields of the JSON body, if any.\<close>

record request =
  http_method :: string
  url :: string
  body :: "(string \<times> string) list option"

text \<open>
  The state of \<open>App\<close>: one field for each \<open>useState\<close>, in the order of the source,
  and three fields for the environment the handlers act on: the clock in
  milliseconds, the deadlines of the pending \<open>setTimeout\<close> callbacks (every callback
  the component schedules is \<open>() => setNotification(null)\<close>), and the log of the
  \<open>fetch\<close> calls issued so far.
\<close>

record state =
  loggedIn :: bool
  email :: string
  isAdmin :: bool
  isPrincipal :: bool
  department :: string
  suggestions :: "suggestion list"
  viewSuggestion :: "suggestion option"
  statusFilter :: string
  categoryFilter :: string
  searchTerm :: string
  sortOrder :: string
  loading :: bool
  notification :: "notice option"
  now :: nat
  timers :: "nat list"
  requests :: "request list"

definition init :: state where
  "init = \<lparr> loggedIn = False, email = '''', isAdmin = False, isPrincipal = False,
     department = '''', suggestions = [], viewSuggestion = None,
     statusFilter = ''all'', categoryFilter = ''all'', searchTerm = '''',
     sortOrder = ''newest'', loading = False, notification = None,
     now = 0, timers = [], requests = [] \<rparr>"

section \<open>Notification\<close>

text \<open>
  \<open>showNotification\<close> stores the notification and schedules a callback 4000 ms
  later. The source keeps no handle of the timeout and never calls \<open>clearTimeout\<close>.
\<close>

definition showNotification :: "string \<Rightarrow> string \<Rightarrow> state \<Rightarrow> state" where
  "showNotification msg ty st =
     st\<lparr> notification := Some \<lparr> message = msg, type = ty \<rparr>,
         timers := timers st @ [now st + 4000] \<rparr>"

text \<open>
  Time passes to \<open>t\<close>: every pending callback whose deadline is reached runs, and
  each of them is \<open>setNotification(null)\<close>.
\<close>

definition advance :: "nat \<Rightarrow> state \<Rightarrow> state" where
  "advance t st =
     (if t < now st then st
      else st\<lparr> now := t,
               timers := filter (\<lambda>d. t < d) (timers st),
               notification :=
                 (if filter (\<lambda>d. d \<le> t) (timers st) = [] then notification st else None) \<rparr>)"

section \<open>Strings\<close>

text \<open>
  A string is the list of the bytes of its UTF-8 encoding; for well-formed strings
  one occurs in another as a run of code units exactly when its bytes occur there
  as a run of bytes.

  \<open>String.prototype.toLowerCase\<close> is a built-in of the language: it lowers every
  cased letter by the Unicode tables, some of them by their context and some to a
  longer string. The tables are no part of the source, so every function that
  calls \<open>toLowerCase\<close> takes it as the parameter \<open>lower\<close>, and what is proved of such
  a function holds for every \<open>lower\<close>. The examples use two instances.
  \<open>toLowerCase_ascii\<close> is the built-in on strings of ASCII characters: the letters
  \<open>A\<close> to \<open>Z\<close> go to \<open>a\<close> to \<open>z\<close>, every other ASCII character is kept.
\<close>

definition lower_char :: "char \<Rightarrow> char" where
  "lower_char c =
     (let n = (of_char c :: nat) in if 65 \<le> n \<and> n \<le> 90 then char_of (n + 32) else c)"

definition toLowerCase_ascii :: "string \<Rightarrow> string" where
  "toLowerCase_ascii s = map lower_char s"

text \<open>
  The Greek strings capital alpha capital sigma (U+0391 U+03A3), capital sigma
  (U+03A3), small alpha small final sigma (U+03B1 U+03C2) and small sigma (U+03C3)
  in UTF-8. \<open>toLowerCase_sigma\<close> is the built-in on ASCII strings and on the first
  two of these: a capital sigma at the end of a word, after a letter, is lowered
  to the final form of the small sigma, a capital sigma alone to the small sigma.
\<close>

definition str_Alpha_Sigma :: string where
  "str_Alpha_Sigma = [CHR 0xCE, CHR 0x91, CHR 0xCE, CHR 0xA3]"

definition str_Sigma :: string where
  "str_Sigma = [CHR 0xCE, CHR 0xA3]"

definition str_alpha_final_sigma :: string where
  "str_alpha_final_sigma = [CHR 0xCE, CHR 0xB1, CHR 0xCF, CHR 0x82]"

definition str_sigma :: string where
  "str_sigma = [CHR 0xCF, CHR 0x83]"

definition toLowerCase_sigma :: "string \<Rightarrow> string" where
  "toLowerCase_sigma s =
     (if s = str_Alpha_Sigma then str_alpha_final_sigma
      else if s = str_Sigma then str_sigma
      else toLowerCase_ascii s)"

text \<open>\<open>s.includes(t)\<close>: \<open>t\<close> occurs in \<open>s\<close> as a contiguous run.\<close>

fun str_includes :: "string \<Rightarrow> string \<Rightarrow> bool" where
  "str_includes [] t = (t = [])"
| "str_includes (c # cs) t = (prefix t (c # cs) \<or> str_includes cs t)"

text \<open>\<open>x || ""\<close> for a property that is a string or absent.\<close>

definition or_empty :: "string option \<Rightarrow> string" where
  "or_empty x = (case x of None \<Rightarrow> '''' | Some s \<Rightarrow> s)"

text \<open>
  \<open>x || d\<close> for a property that is a string or absent: the empty string is falsy,
  as \<open>undefined\<close> is.
\<close>

definition or_default :: "string option \<Rightarrow> string \<Rightarrow> string" where
  "or_default x d = (case x of None \<Rightarrow> d | Some s \<Rightarrow> if s = '''' then d else s)"

text \<open>
  \<open>encodeURIComponent\<close> on the bytes of the UTF-8 encoding: letters, digits and
  \<open>- _ . ! ~ * ' ( )\<close> are kept, every other byte becomes \<open>%XX\<close>.
\<close>

definition hex_digit :: "nat \<Rightarrow> char" where
  "hex_digit n = (if n < 10 then char_of (48 + n) else char_of (55 + n))"

definition unreserved :: "char \<Rightarrow> bool" where
  "unreserved c =
     (let n = (of_char c :: nat) in
        (65 \<le> n \<and> n \<le> 90) \<or> (97 \<le> n \<and> n \<le> 122) \<or> (48 \<le> n \<and> n \<le> 57) \<or>
        n \<in> {45, 95, 46, 33, 126, 42, 39, 40, 41})"

definition encode_char :: "char \<Rightarrow> string" where
  "encode_char c =
     (if unreserved c then [c]
      else [CHR ''%'', hex_digit (of_char c div 16), hex_digit (of_char c mod 16)])"

definition encodeURIComponent :: "string \<Rightarrow> string" where
  "encodeURIComponent s = concat (map encode_char s)"

section \<open>Filter and sort\<close>

text \<open>
  \<open>Array.prototype.sort\<close> with a comparator. The result of the comparator is a
  number, \<open>None\<close> standing for \<open>NaN\<close>, which the sort reads as \<open>+0\<close>. The language
  requires the sort to be stable, so for a comparator that is a consistent
  ordering of the elements the result is determined: it is the one of insertion
  from the right, where an element goes before the first element it does not
  compare greater than. For any other comparator the language leaves the order to
  the implementation; the model then still inserts from the right.
\<close>

definition nan_zero :: "int option \<Rightarrow> int" where
  "nan_zero v = (case v of None \<Rightarrow> 0 | Some n \<Rightarrow> n)"

fun js_insert :: "('a \<Rightarrow> 'a \<Rightarrow> int option) \<Rightarrow> 'a \<Rightarrow> 'a list \<Rightarrow> 'a list" where
  "js_insert cmp x [] = [x]"
| "js_insert cmp x (y # ys) =
     (if nan_zero (cmp x y) \<le> 0 then x # y # ys else y # js_insert cmp x ys)"

fun js_sort :: "('a \<Rightarrow> 'a \<Rightarrow> int option) \<Rightarrow> 'a list \<Rightarrow> 'a list" where
  "js_sort cmp [] = []"
| "js_sort cmp (x # xs) = js_insert cmp x (js_sort cmp xs)"

text \<open>
  Arrays are objects with identity: \<open>filter\<close> returns a new array, \<open>sort\<close> sorts its
  receiver in place and returns it. The heap maps an array reference to the
  array's elements; \<open>fresh\<close> is the next unused reference.
\<close>

record heap =
  cells :: "nat \<Rightarrow> suggestion list"
  fresh :: nat

definition array_filter :: "(suggestion \<Rightarrow> bool) \<Rightarrow> nat \<Rightarrow> heap \<Rightarrow> nat \<times> heap" where
  "array_filter p a h =
     (fresh h, h\<lparr> cells := (cells h)(fresh h := filter p (cells h a)), fresh := Suc (fresh h) \<rparr>)"

definition array_sort ::
  "(suggestion \<Rightarrow> suggestion \<Rightarrow> int option) \<Rightarrow> nat \<Rightarrow> heap \<Rightarrow> nat \<times> heap" where
  "array_sort cmp a h = (a, h\<lparr> cells := (cells h)(a := js_sort cmp (cells h a)) \<rparr>)"

text \<open>The three predicates and the comparator of \<open>filteredSuggestions\<close>.\<close>

definition status_pred :: "string \<Rightarrow> suggestion \<Rightarrow> bool" where
  "status_pred sf s = (if sf = ''all'' then True else s_status s = sf)"

definition category_pred :: "string \<Rightarrow> suggestion \<Rightarrow> bool" where
  "category_pred cf s = (if cf = ''all'' then True else s_category s = cf)"

definition search_pred :: "(string \<Rightarrow> string) \<Rightarrow> string \<Rightarrow> suggestion \<Rightarrow> bool" where
  "search_pred lower q s =
     (str_includes (lower (or_empty (s_title s))) (lower q) \<or>
      str_includes (lower (or_empty (s_description s))) (lower q))"

text \<open>\<open>x - y\<close> on the time values of two dates: \<open>NaN\<close> when one of them is invalid.\<close>

definition date_minus :: "int option \<Rightarrow> int option \<Rightarrow> int option" where
  "date_minus x y =
     (case x of None \<Rightarrow> None | Some m \<Rightarrow> (case y of None \<Rightarrow> None | Some n \<Rightarrow> Some (m - n)))"

definition date_cmp :: "string \<Rightarrow> suggestion \<Rightarrow> suggestion \<Rightarrow> int option" where
  "date_cmp so a b =
     (if so = ''newest'' then date_minus (s_createdAt b) (s_createdAt a)
      else date_minus (s_createdAt a) (s_createdAt b))"

text \<open>
  \<open>filteredSuggestions\<close>, computed at every render from the array \<open>suggestions\<close>
  (the reference \<open>a\<close>) and the four controls \<open>statusFilter\<close>, \<open>categoryFilter\<close>,
  \<open>searchTerm\<close> and \<open>sortOrder\<close> (here \<open>sf\<close>, \<open>cf\<close>, \<open>q\<close> and \<open>so\<close>); it returns the
  reference of the result and the heap.
\<close>

definition filteredSuggestions ::
  "(string \<Rightarrow> string) \<Rightarrow> string \<Rightarrow> string \<Rightarrow> string \<Rightarrow> string \<Rightarrow> nat \<Rightarrow> heap \<Rightarrow> nat \<times> heap" where
  "filteredSuggestions lower sf cf q so a h =
     (let (a1, h1) = array_filter (status_pred sf) a h;
          (a2, h2) = array_filter (category_pred cf) a1 h1;
          (a3, h3) = array_filter (search_pred lower q) a2 h2
      in array_sort (date_cmp so) a3 h3)"

text \<open>The rows rendered for a state: the result of the pipeline on its cache.\<close>

definition rows :: "(string \<Rightarrow> string) \<Rightarrow> state \<Rightarrow> suggestion list" where
  "rows lower st =
     (let h = \<lparr> cells = (\<lambda>_. [])(0 := suggestions st), fresh = 1 \<rparr>;
          (a, h') = filteredSuggestions lower (statusFilter st) (categoryFilter st)
                      (searchTerm st) (sortOrder st) 0 h
      in cells h' a)"
section \<open>The backend as seen by a handler\<close>

text \<open>
  What a handler gets for the request it awaits, by the branch it selects:
  \<^item> \<open>Threw\<close>: an exception reaches the handler's \<open>catch\<close> block (\<open>fetch\<close> rejects,
    \<open>res.json()\<close> rejects where the handler calls it, or the handler reads a
    property of a \<open>null\<close> body);
  \<^item> \<open>Ok x\<close>: \<open>res.ok\<close> holds and the body, where the handler parses it, is \<open>x\<close>, of
    the shape the endpoint documents (\<open>unit\<close> where the body is not read);
  \<^item> \<open>NotOk e\<close>: \<open>res.ok\<close> is false and the body is a JSON object whose property
    \<open>error\<close> is \<open>e\<close> (\<open>None\<close> when it has none).
\<close>

datatype 'a response = Threw | Ok 'a | NotOk "string option"

text \<open>The body of the login exchange; \<open>x || false\<close> and \<open>x || ""\<close> are applied already.\<close>

record identity =
  i_email :: string
  i_isAdmin :: bool
  i_isPrincipal :: bool
  i_department :: string

text \<open>The body of a list request: \<open>Array.isArray(data)\<close> holds or not.\<close>

datatype listing = IsArray "suggestion list" | NotArray

text \<open>\<open>fetch(url, options)\<close>: the call is recorded.\<close>

definition fetch :: "request \<Rightarrow> state \<Rightarrow> state" where
  "fetch r st = st\<lparr> requests := requests st @ [r] \<rparr>"

section \<open>Handlers\<close>

text \<open>
  An asynchronous handler runs in two parts, and other events may run between
  them. \<open>f_begin\<close> is the part up to the \<open>await\<close> of the request: it runs at the
  click, on the state of that moment. \<open>f_end\<close> is the part after the \<open>await\<close>: it
  runs when the backend answers, on the state of that moment.

  A handler is a closure of the render it was created in. A state variable it
  names (\<open>email\<close>, \<open>isAdmin\<close>, \<open>isPrincipal\<close>, \<open>viewSuggestion\<close>) has the value of
  that render in both parts, also when the state has changed since; a setter
  writes to the current state, and a setter with a function argument
  (\<open>setSuggestions((prev) => ...)\<close>) reads the current state. The argument \<open>r\<close> is
  the state of that render, \<open>st\<close> the current state. A button that is clicked
  belongs to the current render, so a part that runs at a click has one state
  argument only.

  \<open>f\<close> itself is the run in which nothing happens between the two parts: \<open>f_end\<close>
  on the state that \<open>f_begin\<close> leaves, with the state of the click as the render.

  \<open>api\<close> is \<open>API_BASE_URL\<close>. The request headers are not modelled.
\<close>

subsection \<open>\<open>handleCredentialResponse\<close>\<close>

definition no_credential :: "string option \<Rightarrow> bool" where
  "no_credential credential = (case credential of None \<Rightarrow> True | Some token \<Rightarrow> token = '''')"

definition handleCredentialResponse_begin :: "string \<Rightarrow> string option \<Rightarrow> state \<Rightarrow> state" where
  "handleCredentialResponse_begin api credential st =
     (if no_credential credential then showNotification ''No credential returned'' ''error'' st
      else fetch \<lparr> http_method = ''POST'', url = api @ ''/api/auth/google'',
                   body = Some [(''token'', or_empty credential)] \<rparr> st)"

definition handleCredentialResponse_end :: "identity response \<Rightarrow> state \<Rightarrow> state" where
  "handleCredentialResponse_end resp st =
     (case resp of
        Ok result \<Rightarrow>
          showNotification ''Logged in successfully!'' ''success''
            (st\<lparr> email := i_email result,
                 isAdmin := i_isAdmin result,
                 isPrincipal := i_isPrincipal result,
                 department := i_department result,
                 loggedIn := True \<rparr>)
      | NotOk err \<Rightarrow> showNotification (or_default err ''Login failed'') ''error'' st
      | Threw \<Rightarrow> showNotification ''Login error. Check console.'' ''error'' st)"

definition handleCredentialResponse ::
  "string \<Rightarrow> string option \<Rightarrow> identity response \<Rightarrow> state \<Rightarrow> state" where
  "handleCredentialResponse api credential resp st =
     (if no_credential credential then handleCredentialResponse_begin api credential st
      else handleCredentialResponse_end resp (handleCredentialResponse_begin api credential st))"

subsection \<open>\<open>loadSuggestions\<close>\<close>

text \<open>
  \<open>loadSuggestions\<close> is called by the effect that follows a login, by
  \<open>handleRefresh\<close> and by the form's \<open>onSubmit\<close> after the answer to its POST. In the
  last case the render \<open>r\<close> it belongs to is the one of the submit, not the current
  one. Its guard and its URL read \<open>email\<close> and \<open>isAdmin\<close> of that render.
\<close>

definition loadSuggestions_begin :: "string \<Rightarrow> state \<Rightarrow> state \<Rightarrow> state" where
  "loadSuggestions_begin api r st =
     (if email r = '''' then st
      else
        let u = (if isAdmin r
                 then api @ ''/api/admin/suggestions?email='' @ encodeURIComponent (email r)
                 else api @ ''/api/student/suggestions?email='' @ encodeURIComponent (email r))
        in fetch \<lparr> http_method = ''GET'', url = u, body = None \<rparr> st)"

definition loadSuggestions_end :: "listing response \<Rightarrow> state \<Rightarrow> state" where
  "loadSuggestions_end resp st =
     (case resp of
        NotOk err \<Rightarrow>
          showNotification ''Failed to load suggestions'' ''error'' (st\<lparr> suggestions := [] \<rparr>)
      | Ok data \<Rightarrow>
          st\<lparr> suggestions := (case data of IsArray xs \<Rightarrow> xs | NotArray \<Rightarrow> []) \<rparr>
      | Threw \<Rightarrow>
          showNotification ''Failed to load suggestions. Check console.'' ''error''
            (st\<lparr> suggestions := [] \<rparr>))"

definition loadSuggestions :: "string \<Rightarrow> listing response \<Rightarrow> state \<Rightarrow> state" where
  "loadSuggestions api resp st =
     (if email st = '''' then st
      else loadSuggestions_end resp (loadSuggestions_begin api st st))"

text \<open>The effect \<open>if (loggedIn) loadSuggestions()\<close>.\<close>

definition loadEffect :: "string \<Rightarrow> listing response \<Rightarrow> state \<Rightarrow> state" where
  "loadEffect api resp st = (if loggedIn st then loadSuggestions api resp st else st)"

subsection \<open>\<open>handleRefresh\<close>\<close>

definition handleRefresh_begin :: "string \<Rightarrow> state \<Rightarrow> state" where
  "handleRefresh_begin api st = loadSuggestions_begin api st (st\<lparr> loading := True \<rparr>)"

definition handleRefresh_end :: "listing response \<Rightarrow> state \<Rightarrow> state" where
  "handleRefresh_end resp st =
     showNotification ''Suggestions refreshed'' ''info''
       ((loadSuggestions_end resp st)\<lparr> loading := False \<rparr>)"

definition handleRefresh :: "string \<Rightarrow> listing response \<Rightarrow> state \<Rightarrow> state" where
  "handleRefresh api resp st =
     showNotification ''Suggestions refreshed'' ''info''
       ((loadSuggestions api resp (st\<lparr> loading := True \<rparr>))\<lparr> loading := False \<rparr>)"

subsection \<open>\<open>handleDelete\<close>\<close>

text \<open>
  \<open>confirmed\<close> is the result of \<open>window.confirm\<close>. After the answer the cache is
  filtered by a function of the current cache, and the viewed suggestion is
  tested as the render of the click had it.
\<close>

definition handleDelete_begin :: "string \<Rightarrow> string \<Rightarrow> bool \<Rightarrow> state \<Rightarrow> state" where
  "handleDelete_begin api i confirmed st =
     (if \<not> confirmed then st
      else fetch \<lparr> http_method = ''DELETE'', url = api @ ''/api/student/suggestions/'' @ i,
                   body = None \<rparr> st)"

definition handleDelete_end :: "string \<Rightarrow> state \<Rightarrow> unit response \<Rightarrow> state \<Rightarrow> state" where
  "handleDelete_end i r resp st =
     (case resp of
        NotOk err \<Rightarrow> showNotification (or_default err ''Delete failed'') ''error'' st
      | Ok _ \<Rightarrow>
          showNotification ''Suggestion deleted successfully!'' ''success''
            (st\<lparr> suggestions := filter (\<lambda>s. s_id s \<noteq> i) (suggestions st),
                 viewSuggestion :=
                   (case viewSuggestion r of
                      None \<Rightarrow> viewSuggestion st
                    | Some v \<Rightarrow> if s_id v = i then None else viewSuggestion st) \<rparr>)
      | Threw \<Rightarrow> showNotification ''Delete failed. Check console.'' ''error'' st)"

definition handleDelete :: "string \<Rightarrow> string \<Rightarrow> bool \<Rightarrow> unit response \<Rightarrow> state \<Rightarrow> state" where
  "handleDelete api i confirmed resp st =
     (if \<not> confirmed then st
      else handleDelete_end i st resp (handleDelete_begin api i confirmed st))"

subsection \<open>\<open>handleStatusChange\<close>\<close>

text \<open>
  After the answer the cache is mapped by a function of the current cache, and
  the viewed suggestion is tested as the render of the click had it.
\<close>

definition handleStatusChange_begin :: "string \<Rightarrow> string \<Rightarrow> string \<Rightarrow> state \<Rightarrow> state" where
  "handleStatusChange_begin api i status st =
     (let updatedBy = (if isPrincipal st then ''Principal'' else ''HOD'')
      in fetch \<lparr> http_method = ''PATCH'', url = api @ ''/api/admin/suggestions/'' @ i,
                   body = Some [(''status'', status), (''updatedBy'', updatedBy)] \<rparr> st)"

definition handleStatusChange_end ::
  "string \<Rightarrow> string \<Rightarrow> state \<Rightarrow> suggestion response \<Rightarrow> state \<Rightarrow> state" where
  \<open>handleStatusChange_end i status r resp st =
     (case resp of
        Ok updated \<Rightarrow>
          showNotification (''Status updated to "'' @ status @ ''"'') ''success''
            (st\<lparr> suggestions := map (\<lambda>s. if s_id s = i then updated else s) (suggestions st),
                 viewSuggestion :=
                   (case viewSuggestion r of
                      None \<Rightarrow> viewSuggestion st
                    | Some v \<Rightarrow> if s_id v = i then Some updated else viewSuggestion st) \<rparr>)
      | NotOk err \<Rightarrow> showNotification (or_default err ''Status update failed'') ''error'' st
      | Threw \<Rightarrow> showNotification ''Status update failed. Check console.'' ''error'' st)\<close>

definition handleStatusChange ::
  "string \<Rightarrow> string \<Rightarrow> string \<Rightarrow> suggestion response \<Rightarrow> state \<Rightarrow> state" where
  "handleStatusChange api i status resp st =
     handleStatusChange_end i status st resp (handleStatusChange_begin api i status st)"

subsection \<open>\<open>handleView\<close> and \<open>closeView\<close>\<close>

definition handleView_begin :: "string \<Rightarrow> string \<Rightarrow> state \<Rightarrow> state" where
  "handleView_begin api i st =
     (let u = (if isAdmin st
               then api @ ''/api/admin/suggestions/view/'' @ i
               else api @ ''/api/student/suggestions/view/'' @ i @ ''?email='' @
                    encodeURIComponent (email st))
      in fetch \<lparr> http_method = ''GET'', url = u, body = None \<rparr> st)"

definition handleView_end :: "suggestion response \<Rightarrow> state \<Rightarrow> state" where
  "handleView_end resp st =
     (case resp of
        NotOk err \<Rightarrow>
          showNotification (or_default err ''Failed to load suggestion details'') ''error'' st
      | Ok data \<Rightarrow> st\<lparr> viewSuggestion := Some data \<rparr>
      | Threw \<Rightarrow>
          showNotification ''Failed to load suggestion details. Check console.'' ''error'' st)"

definition handleView :: "string \<Rightarrow> string \<Rightarrow> suggestion response \<Rightarrow> state \<Rightarrow> state" where
  "handleView api i resp st = handleView_end resp (handleView_begin api i st)"

definition closeView :: "state \<Rightarrow> state" where
  "closeView st = st\<lparr> viewSuggestion := None \<rparr>"

subsection \<open>The \<open>onSubmit\<close> handler of the form\<close>

text \<open>
  \<open>entries\<close> are the form's fields; the body is \<open>{ email, ...data }\<close>, where a field
  of the form named \<open>email\<close> would replace the value. The handler has three parts:
  up to the \<open>await\<close> of the POST; from its answer, on success, to the \<open>await\<close> of
  \<open>loadSuggestions()\<close>, which is the \<open>loadSuggestions\<close> of the render of the submit;
  and from the answer to that reload to the end. When the guard of
  \<open>loadSuggestions\<close> returns, there is nothing to wait for and the second part
  goes on to the end.
\<close>

definition onSubmit_begin :: "string \<Rightarrow> (string \<times> string) list \<Rightarrow> state \<Rightarrow> state" where
  "onSubmit_begin api entries st =
     (let b = fold (\<lambda>(k, v). AList.update k v) entries [(''email'', email st)]
      in fetch \<lparr> http_method = ''POST'', url = api @ ''/api/suggestions'', body = Some b \<rparr> st)"

definition onSubmit_answer :: "string \<Rightarrow> state \<Rightarrow> unit response \<Rightarrow> state \<Rightarrow> state" where
  "onSubmit_answer api r resp st =
     (case resp of
        NotOk err \<Rightarrow> showNotification (or_default err ''Submit failed'') ''error'' st
      | Ok _ \<Rightarrow>
          if email r = '''' then showNotification ''Suggestion submitted!'' ''success'' st
          else loadSuggestions_begin api r st
      | Threw \<Rightarrow> showNotification ''Submit failed. Check console.'' ''error'' st)"

definition onSubmit_end :: "listing response \<Rightarrow> state \<Rightarrow> state" where
  "onSubmit_end resp2 st =
     showNotification ''Suggestion submitted!'' ''success'' (loadSuggestions_end resp2 st)"

definition onSubmit ::
  "string \<Rightarrow> (string \<times> string) list \<Rightarrow> unit response \<Rightarrow> listing response \<Rightarrow> state \<Rightarrow> state" where
  "onSubmit api entries resp resp2 st =
     (let st2 = onSubmit_answer api st resp (onSubmit_begin api entries st)
      in case resp of
           Ok _ \<Rightarrow> if email st = '''' then st2 else onSubmit_end resp2 st2
         | NotOk err \<Rightarrow> st2
         | Threw \<Rightarrow> st2)"

subsection \<open>\<open>handleLogout\<close>\<close>

definition handleLogout :: "state \<Rightarrow> state" where
  "handleLogout st =
     showNotification ''Logged out successfully'' ''info''
       (st\<lparr> loggedIn := False, email := '''', isAdmin := False, isPrincipal := False,
            department := '''', suggestions := [], viewSuggestion := None,
            notification := None \<rparr>)"

section \<open>What the rendered page offers\<close>

text \<open>
  The controls of the JSX that start an operation. The login button is in the
  block under \<open>!loggedIn\<close>; every other control is in the block under \<open>loggedIn\<close>:
  the form under \<open>!isAdmin\<close>, one View button for each rendered row, the status
  buttons under \<open>isAdmin\<close> for a row that is neither resolved nor invalid, the
  Delete button under \<open>!isAdmin\<close>, the modal's Close button when a suggestion is
  viewed.
\<close>

datatype action =
    Login
  | Logout
  | Refresh
  | Submit
  | View string
  | StatusChange string string
  | Delete string
  | CloseView

fun offered :: "(string \<Rightarrow> string) \<Rightarrow> state \<Rightarrow> action \<Rightarrow> bool" where
  "offered lower st Login = (\<not> loggedIn st)"
| "offered lower st Logout = loggedIn st"
| "offered lower st Refresh = (loggedIn st \<and> \<not> loading st)"
| "offered lower st Submit = (loggedIn st \<and> \<not> isAdmin st)"
| "offered lower st (View i) = (loggedIn st \<and> list_ex (\<lambda>s. s_id s = i) (rows lower st))"
| "offered lower st (StatusChange i ns) =
     (loggedIn st \<and> isAdmin st \<and>
      list_ex (\<lambda>s. s_id s = i \<and> s_status s \<noteq> ''resolved'' \<and> s_status s \<noteq> ''invalid'' \<and>
                    ((ns = ''in-progress'' \<and> s_status s \<noteq> ''in-progress'') \<or>
                     ns = ''resolved'' \<or> ns = ''invalid'')) (rows lower st))"
| "offered lower st (Delete i) =
     (loggedIn st \<and> \<not> isAdmin st \<and> list_ex (\<lambda>s. s_id s = i) (rows lower st))"
| "offered lower st CloseView = (loggedIn st \<and> viewSuggestion st \<noteq> None)"

section \<open>Reachable states\<close>

text \<open>
  A superset of the states the component can be in: from the initial state, by
  the passing of time, by any handler as one run, by any part of a handler with
  any reachable state as its render, each on any input and any answer of the
  backend, also where the page does not offer the operation, and by the setters
  of the four filter controls.
\<close>

inductive reachable :: "string \<Rightarrow> state \<Rightarrow> bool" for api :: string where
  r_init: "reachable api init"
| r_advance: "reachable api st \<Longrightarrow> reachable api (advance t st)"
| r_login: "reachable api st \<Longrightarrow> reachable api (handleCredentialResponse api c ri st)"
| r_load: "reachable api st \<Longrightarrow> reachable api (loadSuggestions api rl st)"
| r_refresh: "reachable api st \<Longrightarrow> reachable api (handleRefresh api rl st)"
| r_delete: "reachable api st \<Longrightarrow> reachable api (handleDelete api i b ru st)"
| r_status: "reachable api st \<Longrightarrow> reachable api (handleStatusChange api i ns rs st)"
| r_view: "reachable api st \<Longrightarrow> reachable api (handleView api i rs st)"
| r_close: "reachable api st \<Longrightarrow> reachable api (closeView st)"
| r_submit: "reachable api st \<Longrightarrow> reachable api (onSubmit api es ru rl st)"
| r_logout: "reachable api st \<Longrightarrow> reachable api (handleLogout st)"
| r_statusFilter: "reachable api st \<Longrightarrow> reachable api (st\<lparr> statusFilter := v \<rparr>)"
| r_categoryFilter: "reachable api st \<Longrightarrow> reachable api (st\<lparr> categoryFilter := v \<rparr>)"
| r_searchTerm: "reachable api st \<Longrightarrow> reachable api (st\<lparr> searchTerm := v \<rparr>)"
| r_sortOrder: "reachable api st \<Longrightarrow> reachable api (st\<lparr> sortOrder := v \<rparr>)"
| r_login_begin: "reachable api st \<Longrightarrow> reachable api (handleCredentialResponse_begin api c st)"
| r_login_end: "reachable api st \<Longrightarrow> reachable api (handleCredentialResponse_end ri st)"
| r_load_begin:
    "reachable api r \<Longrightarrow> reachable api st \<Longrightarrow> reachable api (loadSuggestions_begin api r st)"
| r_load_end: "reachable api st \<Longrightarrow> reachable api (loadSuggestions_end rl st)"
| r_refresh_begin: "reachable api st \<Longrightarrow> reachable api (handleRefresh_begin api st)"
| r_refresh_end: "reachable api st \<Longrightarrow> reachable api (handleRefresh_end rl st)"
| r_delete_begin: "reachable api st \<Longrightarrow> reachable api (handleDelete_begin api i b st)"
| r_delete_end:
    "reachable api r \<Longrightarrow> reachable api st \<Longrightarrow> reachable api (handleDelete_end i r ru st)"
| r_status_begin: "reachable api st \<Longrightarrow> reachable api (handleStatusChange_begin api i ns st)"
| r_status_end:
    "reachable api r \<Longrightarrow> reachable api st \<Longrightarrow> reachable api (handleStatusChange_end i ns r rs st)"
| r_view_begin: "reachable api st \<Longrightarrow> reachable api (handleView_begin api i st)"
| r_view_end: "reachable api st \<Longrightarrow> reachable api (handleView_end rs st)"
| r_submit_begin: "reachable api st \<Longrightarrow> reachable api (onSubmit_begin api es st)"
| r_submit_answer:
    "reachable api r \<Longrightarrow> reachable api st \<Longrightarrow> reachable api (onSubmit_answer api r ru st)"
| r_submit_end: "reachable api st \<Longrightarrow> reachable api (onSubmit_end rl st)"

text \<open>The invariant of the session: not logged in means every identity field is at its default.\<close>

definition session_empty :: "state \<Rightarrow> bool" where
  "session_empty st =
     (email st = '''' \<and> \<not> isAdmin st \<and> \<not> isPrincipal st \<and> department st = '''')"
section \<open>The properties as the specification words them\<close>

text \<open>\<open>t\<close> occurs in \<open>s\<close> as a contiguous part.\<close>

definition occurs_in :: "string \<Rightarrow> string \<Rightarrow> bool" where
  "occurs_in t s = (\<exists>ps ss. s = ps @ t @ ss)"

text \<open>
  The records the three filters select together: the status and the category are
  the ones asked for, or \<open>all\<close> is asked for, and the lowered search term occurs in
  the lowered title or in the lowered description.
\<close>

definition selected :: "(string \<Rightarrow> string) \<Rightarrow> string \<Rightarrow> string \<Rightarrow> string \<Rightarrow> suggestion \<Rightarrow> bool" where
  "selected lower sf cf q s =
     ((sf = ''all'' \<or> s_status s = sf) \<and>
      (cf = ''all'' \<or> s_category s = cf) \<and>
      (occurs_in (lower q) (lower (or_empty (s_title s))) \<or>
       occurs_in (lower q) (lower (or_empty (s_description s)))))"

text \<open>
  The order of the output: of two records with valid dates, the one at the earlier
  position is not older than the other for \<open>newest\<close>, and not newer otherwise.
\<close>

definition before :: "string \<Rightarrow> suggestion \<Rightarrow> suggestion \<Rightarrow> bool" where
  "before so a b =
     (case s_createdAt a of
        None \<Rightarrow> True
      | Some x \<Rightarrow>
          (case s_createdAt b of
             None \<Rightarrow> True
           | Some y \<Rightarrow> if so = ''newest'' then y \<le> x else x \<le> y))"

definition in_order :: "string \<Rightarrow> suggestion list \<Rightarrow> bool" where
  "in_order so xs = sorted_wrt (before so) xs"

text \<open>Every record of the list has a valid \<open>createdAt\<close>.\<close>

definition valid_dates :: "suggestion list \<Rightarrow> bool" where
  "valid_dates xs = list_all (\<lambda>s. s_createdAt s \<noteq> None) xs"


section \<open>Auxiliary definitions and example data\<close>

text \<open>The key that both comparators of \<open>date_cmp\<close> compare by subtraction on valid dates.\<close>

definition sort_key_of :: "string \<Rightarrow> suggestion \<Rightarrow> int" where
  "sort_key_of so s =
     (case s_createdAt s of None \<Rightarrow> 0 | Some t \<Rightarrow> if so = ''newest'' then - t else t)"

text \<open>
  The cache of the specification's scenarios: record 1 is pending and was created
  at \<open>T1\<close>, record 2 is resolved and was created at \<open>T2 > T1\<close>.
\<close>

definition sugg1 :: suggestion where
  "sugg1 = \<lparr> s_id = ''1'', s_title = Some ''Library hours'',
     s_description = Some ''Open the library on Sundays'', s_category = ''facilities'',
     s_status = ''pending'', s_email = ''a@ybit.ac.in'', s_department = '''',
     s_updatedBy = '''', s_createdAt = Some 1000, s_updatedAt = None \<rparr>"

definition sugg2 :: suggestion where
  "sugg2 = \<lparr> s_id = ''2'', s_title = Some ''Campus WiFi'',
     s_description = None, s_category = ''technology'',
     s_status = ''resolved'', s_email = ''a@ybit.ac.in'', s_department = ''IT'',
     s_updatedBy = ''HOD'', s_createdAt = Some 2000, s_updatedAt = Some 3000 \<rparr>"

definition heap0 :: heap where
  "heap0 = \<lparr> cells = (\<lambda>_. [])(0 := [sugg1, sugg2]), fresh = 1 \<rparr>"

text \<open>Record 3 has no \<open>createdAt\<close>; in the cache it stands between records 1 and 2.\<close>

definition sugg3 :: suggestion where
  "sugg3 = \<lparr> s_id = ''3'', s_title = Some ''Parking'',
     s_description = Some ''More room for bicycles'', s_category = ''facilities'',
     s_status = ''pending'', s_email = ''a@ybit.ac.in'', s_department = '''',
     s_updatedBy = '''', s_createdAt = None, s_updatedAt = None \<rparr>"

definition heap_nodate :: heap where
  "heap_nodate = \<lparr> cells = (\<lambda>_. [])(0 := [sugg1, sugg3, sugg2]), fresh = 1 \<rparr>"

text \<open>Record 4 has the title capital alpha capital sigma.\<close>

definition sugg4 :: suggestion where
  "sugg4 = \<lparr> s_id = ''4'', s_title = Some str_Alpha_Sigma,
     s_description = None, s_category = ''other'',
     s_status = ''pending'', s_email = ''a@ybit.ac.in'', s_department = '''',
     s_updatedBy = '''', s_createdAt = Some 4000, s_updatedAt = None \<rparr>"

definition heap_greek :: heap where
  "heap_greek = \<lparr> cells = (\<lambda>_. [])(0 := [sugg4]), fresh = 1 \<rparr>"

definition ident0 :: identity where
  "ident0 = \<lparr> i_email = ''a@ybit.ac.in'', i_isAdmin = False, i_isPrincipal = False,
     i_department = '''' \<rparr>"

definition ident_hod :: identity where
  "ident_hod = \<lparr> i_email = ''hod@ybit.ac.in'', i_isAdmin = True, i_isPrincipal = False,
     i_department = ''IT'' \<rparr>"

text \<open>A student and a head of department, each after a successful login.\<close>

definition student0 :: state where
  "student0 = handleCredentialResponse ''https://api'' (Some ''tok'') (Ok ident0) init"

definition admin0 :: state where
  "admin0 = (handleCredentialResponse ''https://api'' (Some ''tok'') (Ok ident_hod) init)
              \<lparr> suggestions := [sugg1, sugg2] \<rparr>"

text \<open>The student after the load that follows the login has brought records 1 and 2.\<close>

definition student1 :: state where
  "student1 = loadEffect ''https://api'' (Ok (IsArray [sugg1, sugg2])) student0"





text \<open>
  A delete that is answered after a view: with nothing viewed, the student
  confirms Delete on row 2; before the DELETE is answered, View on row 2 is
  clicked and answered; then the DELETE is answered with success.
\<close>

definition delete_sent :: state where
  "delete_sent = handleDelete_begin ''https://api'' ''2'' True student1"

definition delete_viewed :: state where
  "delete_viewed = handleView ''https://api'' ''2'' (Ok sugg2) delete_sent"

definition delete_answered :: state where
  "delete_answered = handleDelete_end ''2'' student1 (Ok ()) delete_viewed"

text \<open>
  A status change that is answered after another view: the head of department
  views record 1 and activates Resolve on row 1; before the PATCH is answered the
  view is closed and View on row 2 is clicked and answered; then the PATCH is
  answered with the resolved record 1.
\<close>

definition sugg1_resolved :: suggestion where
  "sugg1_resolved = sugg1\<lparr> s_status := ''resolved'', s_updatedBy := ''HOD'' \<rparr>"

definition status_viewing :: state where
  "status_viewing = handleView ''https://api'' ''1'' (Ok sugg1) admin0"

definition status_sent :: state where
  "status_sent = handleStatusChange_begin ''https://api'' ''1'' ''resolved'' status_viewing"

definition status_other_view :: state where
  "status_other_view = handleView ''https://api'' ''2'' (Ok sugg2) (closeView status_sent)"

definition status_answered :: state where
  "status_answered =
     handleStatusChange_end ''1'' ''resolved'' status_viewing (Ok sugg1_resolved) status_other_view"

text \<open>
  A view that is answered during a status change: with nothing viewed, the head
  of department clicks Resolve on row 1; before the PATCH is answered, View on
  row 1 is clicked and answered with the pending record 1; then the PATCH is
  answered with the resolved record 1.
\<close>

definition status2_sent :: state where
  "status2_sent = handleStatusChange_begin ''https://api'' ''1'' ''resolved'' admin0"

definition status2_viewed :: state where
  "status2_viewed = handleView ''https://api'' ''1'' (Ok sugg1) status2_sent"

definition status2_answered :: state where
  "status2_answered =
     handleStatusChange_end ''1'' ''resolved'' admin0 (Ok sugg1_resolved) status2_viewed"

section \<open>Sorting with the date comparators\<close>

text \<open>
  On records with valid dates both comparators subtract a key, so \<open>js_sort\<close> with
  them is the library's stable insertion sort by that key; sortedness and
  stability follow from the library's lemmas.
\<close>

lemma set_js_insert: "set (js_insert cmp x ys) = insert x (set ys)"
  by (induction ys) auto

lemma set_js_sort: "set (js_sort cmp xs) = set xs"
  by (induction xs) (auto simp: set_js_insert)

lemma mset_js_insert: "mset (js_insert cmp x ys) = add_mset x (mset ys)"
  by (induction ys) auto

lemma mset_js_sort: "mset (js_sort cmp xs) = mset xs"
  by (induction xs) (auto simp: mset_js_insert)

lemma date_cmp_valid:
  assumes "s_createdAt a \<noteq> None" and "s_createdAt b \<noteq> None"
  shows "nan_zero (date_cmp so a b) = sort_key_of so a - sort_key_of so b"
  using assms by (auto simp: date_cmp_def date_minus_def nan_zero_def sort_key_of_def)

lemma js_insert_insort:
  assumes "s_createdAt x \<noteq> None" and "\<forall>y\<in>set ys. s_createdAt y \<noteq> None"
  shows "js_insert (date_cmp so) x ys = insort_key (sort_key_of so) x ys"
  using assms by (induction ys) (auto simp: date_cmp_valid)

lemma js_sort_date:
  assumes "\<forall>x\<in>set xs. s_createdAt x \<noteq> None"
  shows "js_sort (date_cmp so) xs = sort_key (sort_key_of so) xs"
  using assms
proof (induction xs)
  case Nil
  show ?case by simp
next
  case (Cons x xs)
  then have ih: "js_sort (date_cmp so) xs = sort_key (sort_key_of so) xs" by simp
  have "\<forall>y\<in>set (sort_key (sort_key_of so) xs). s_createdAt y \<noteq> None"
    using Cons.prems by simp
  with Cons.prems have "js_insert (date_cmp so) x (sort_key (sort_key_of so) xs)
      = insort_key (sort_key_of so) x (sort_key (sort_key_of so) xs)"
    by (intro js_insert_insort) simp_all
  with ih show ?case by simp
qed

lemma in_order_js_sort:
  assumes "\<forall>x\<in>set xs. s_createdAt x \<noteq> None"
  shows "in_order so (js_sort (date_cmp so) xs)"
proof -
  have "sorted (map (sort_key_of so) (sort_key (sort_key_of so) xs))"
    by (rule sorted_sort_key)
  then have "sorted_wrt (\<lambda>a b. sort_key_of so a \<le> sort_key_of so b) (sort_key (sort_key_of so) xs)"
    by (simp add: sorted_map)
  then have "sorted_wrt (before so) (sort_key (sort_key_of so) xs)"
    by (rule sorted_wrt_mono_rel [rotated])
      (auto simp: before_def sort_key_of_def split: option.splits if_splits)
  then show ?thesis
    by (simp add: in_order_def js_sort_date [OF assms])
qed

lemma js_sort_stable:
  assumes "\<forall>x\<in>set xs. s_createdAt x \<noteq> None"
  shows "filter (\<lambda>s. s_createdAt s = k) (js_sort (date_cmp so) xs)
         = filter (\<lambda>s. s_createdAt s = k) xs"
proof (cases k)
  case None
  have "filter (\<lambda>s. s_createdAt s = None) (js_sort (date_cmp so) xs) = []"
    using assms by (simp add: set_js_sort)
  moreover have "filter (\<lambda>s. s_createdAt s = None) xs = []"
    using assms by simp
  ultimately show ?thesis using None by simp
next
  case (Some t)
  let ?v = "if so = ''newest'' then - t else t"
  let ?ys = "sort_key (sort_key_of so) xs"
  have same: "(s_createdAt s = Some t) = (sort_key_of so s = ?v)" if "s \<in> set xs" for s
    using that assms by (auto simp: sort_key_of_def split: option.splits)
  have "filter (\<lambda>s. s_createdAt s = Some t) ?ys = filter (\<lambda>s. sort_key_of so s = ?v) ?ys"
    by (rule filter_cong) (simp_all add: same)
  also have "\<dots> = filter (\<lambda>s. sort_key_of so s = ?v) xs"
    by (rule sort_key_stable)
  also have "\<dots> = filter (\<lambda>s. s_createdAt s = Some t) xs"
    by (rule filter_cong) (simp_all add: same)
  finally show ?thesis
    using Some by (simp add: js_sort_date [OF assms])
qed

section \<open>The search predicate\<close>

lemma str_includes_iff: "str_includes s t \<longleftrightarrow> (\<exists>ps ss. s = ps @ t @ ss)"
proof (induction s)
  case Nil
  then show ?case by auto
next
  case (Cons c cs)
  show ?case
  proof
    assume "str_includes (c # cs) t"
    then consider "prefix t (c # cs)" | "str_includes cs t" by auto
    then show "\<exists>ps ss. c # cs = ps @ t @ ss"
    proof cases
      case 1
      then obtain ss where "c # cs = t @ ss" by (auto simp: prefix_def)
      then have "c # cs = [] @ t @ ss" by simp
      then show ?thesis by blast
    next
      case 2
      with Cons.IH obtain ps ss where "cs = ps @ t @ ss" by blast
      then have "c # cs = (c # ps) @ t @ ss" by simp
      then show ?thesis by blast
    qed
  next
    assume "\<exists>ps ss. c # cs = ps @ t @ ss"
    then obtain ps ss where eq: "c # cs = ps @ t @ ss" by blast
    show "str_includes (c # cs) t"
    proof (cases ps)
      case Nil
      with eq have "prefix t (c # cs)" by (auto simp: prefix_def)
      then show ?thesis by simp
    next
      case (Cons p ps')
      with eq have "cs = ps' @ t @ ss" by simp
      with Cons.IH have "str_includes cs t" by blast
      then show ?thesis by simp
    qed
  qed
qed

lemma selected_preds:
  "selected lower sf cf q s \<longleftrightarrow> status_pred sf s \<and> category_pred cf s \<and> search_pred lower q s"
  by (auto simp: selected_def status_pred_def category_pred_def search_pred_def
      str_includes_iff occurs_in_def)

lemma filter_selected:
  "filter (search_pred lower q) (filter (category_pred cf) (filter (status_pred sf) xs))
   = filter (selected lower sf cf q) xs"
  by (induction xs) (auto simp: selected_preds)

lemma occurs_in_Nil: "occurs_in [] s"
proof -
  have "s = [] @ [] @ s" by simp
  then show ?thesis unfolding occurs_in_def by blast
qed

lemma selected_empty_search:
  assumes "lower '''' = ''''"
  shows "selected lower sf cf '''' s
         \<longleftrightarrow> (sf = ''all'' \<or> s_status s = sf) \<and> (cf = ''all'' \<or> s_category s = cf)"
  using assms by (simp add: selected_def occurs_in_Nil)

section \<open>The pipeline on the heap\<close>

lemma filteredSuggestions_out:
  assumes "filteredSuggestions lower sf cf q so a h = (b, h')"
  shows "cells h' b = js_sort (date_cmp so)
           (filter (search_pred lower q) (filter (category_pred cf) (filter (status_pred sf) (cells h a))))"
  using assms
  by (auto simp: filteredSuggestions_def array_filter_def array_sort_def Let_def)

lemma filteredSuggestions_frame:
  assumes "filteredSuggestions lower sf cf q so a h = (b, h')" and "c < fresh h"
  shows "cells h' c = cells h c"
  using assms
  by (auto simp: filteredSuggestions_def array_filter_def array_sort_def Let_def)

text \<open>The two scenarios of the specification on the cache \<open>[1, 2]\<close>.\<close>

lemma scenario_newest:
  "map s_id (cells (snd (filteredSuggestions toLowerCase_ascii ''all'' ''all'' '''' ''newest'' 0 heap0))
               (fst (filteredSuggestions toLowerCase_ascii ''all'' ''all'' '''' ''newest'' 0 heap0)))
   = [''2'', ''1'']"
  by code_simp

lemma scenario_resolved:
  "map s_id (cells (snd (filteredSuggestions toLowerCase_ascii ''resolved'' ''all'' '''' ''newest'' 0 heap0))
               (fst (filteredSuggestions toLowerCase_ascii ''resolved'' ''all'' '''' ''newest'' 0 heap0)))
   = [''2'']"
  by code_simp
section \<open>Handlers and the session fields\<close>

text \<open>
  Only \<open>handleCredentialResponse_end\<close> on a success and \<open>handleLogout\<close> write the
  fields of the session; every other handler, and every part of one, keeps them.
\<close>

lemma showNotification_session:
  "loggedIn (showNotification m ty st) = loggedIn st"
  "email (showNotification m ty st) = email st"
  "isAdmin (showNotification m ty st) = isAdmin st"
  "isPrincipal (showNotification m ty st) = isPrincipal st"
  "department (showNotification m ty st) = department st"
  by (simp_all add: showNotification_def)

lemma fetch_session:
  "loggedIn (fetch r st) = loggedIn st"
  "email (fetch r st) = email st"
  "isAdmin (fetch r st) = isAdmin st"
  "isPrincipal (fetch r st) = isPrincipal st"
  "department (fetch r st) = department st"
  by (simp_all add: fetch_def)

lemma advance_session:
  "loggedIn (advance t st) = loggedIn st"
  "email (advance t st) = email st"
  "isAdmin (advance t st) = isAdmin st"
  "isPrincipal (advance t st) = isPrincipal st"
  "department (advance t st) = department st"
  by (simp_all add: advance_def)

lemma loadSuggestions_begin_session:
  "loggedIn (loadSuggestions_begin api r st) = loggedIn st"
  "email (loadSuggestions_begin api r st) = email st"
  "isAdmin (loadSuggestions_begin api r st) = isAdmin st"
  "isPrincipal (loadSuggestions_begin api r st) = isPrincipal st"
  "department (loadSuggestions_begin api r st) = department st"
  by (simp_all add: loadSuggestions_begin_def Let_def fetch_session)

lemma loadSuggestions_end_session:
  "loggedIn (loadSuggestions_end resp st) = loggedIn st"
  "email (loadSuggestions_end resp st) = email st"
  "isAdmin (loadSuggestions_end resp st) = isAdmin st"
  "isPrincipal (loadSuggestions_end resp st) = isPrincipal st"
  "department (loadSuggestions_end resp st) = department st"
  by (simp_all add: loadSuggestions_end_def showNotification_session split: response.splits)

lemma loadSuggestions_session:
  "loggedIn (loadSuggestions api resp st) = loggedIn st"
  "email (loadSuggestions api resp st) = email st"
  "isAdmin (loadSuggestions api resp st) = isAdmin st"
  "isPrincipal (loadSuggestions api resp st) = isPrincipal st"
  "department (loadSuggestions api resp st) = department st"
  by (simp_all add: loadSuggestions_def loadSuggestions_begin_session loadSuggestions_end_session)

lemma handleRefresh_begin_session:
  "loggedIn (handleRefresh_begin api st) = loggedIn st"
  "email (handleRefresh_begin api st) = email st"
  "isAdmin (handleRefresh_begin api st) = isAdmin st"
  "isPrincipal (handleRefresh_begin api st) = isPrincipal st"
  "department (handleRefresh_begin api st) = department st"
  by (simp_all add: handleRefresh_begin_def loadSuggestions_begin_session)

lemma handleRefresh_end_session:
  "loggedIn (handleRefresh_end resp st) = loggedIn st"
  "email (handleRefresh_end resp st) = email st"
  "isAdmin (handleRefresh_end resp st) = isAdmin st"
  "isPrincipal (handleRefresh_end resp st) = isPrincipal st"
  "department (handleRefresh_end resp st) = department st"
  by (simp_all add: handleRefresh_end_def showNotification_session loadSuggestions_end_session)

lemma handleRefresh_session:
  "loggedIn (handleRefresh api resp st) = loggedIn st"
  "email (handleRefresh api resp st) = email st"
  "isAdmin (handleRefresh api resp st) = isAdmin st"
  "isPrincipal (handleRefresh api resp st) = isPrincipal st"
  "department (handleRefresh api resp st) = department st"
  by (simp_all add: handleRefresh_def showNotification_session loadSuggestions_session)

lemma handleDelete_begin_session:
  "loggedIn (handleDelete_begin api i b st) = loggedIn st"
  "email (handleDelete_begin api i b st) = email st"
  "isAdmin (handleDelete_begin api i b st) = isAdmin st"
  "isPrincipal (handleDelete_begin api i b st) = isPrincipal st"
  "department (handleDelete_begin api i b st) = department st"
  by (simp_all add: handleDelete_begin_def fetch_session)

lemma handleDelete_end_session:
  "loggedIn (handleDelete_end i r resp st) = loggedIn st"
  "email (handleDelete_end i r resp st) = email st"
  "isAdmin (handleDelete_end i r resp st) = isAdmin st"
  "isPrincipal (handleDelete_end i r resp st) = isPrincipal st"
  "department (handleDelete_end i r resp st) = department st"
  by (simp_all add: handleDelete_end_def showNotification_session split: response.splits)

lemma handleDelete_session:
  "loggedIn (handleDelete api i b resp st) = loggedIn st"
  "email (handleDelete api i b resp st) = email st"
  "isAdmin (handleDelete api i b resp st) = isAdmin st"
  "isPrincipal (handleDelete api i b resp st) = isPrincipal st"
  "department (handleDelete api i b resp st) = department st"
  by (simp_all add: handleDelete_def handleDelete_begin_session handleDelete_end_session)

lemma handleStatusChange_begin_session:
  "loggedIn (handleStatusChange_begin api i ns st) = loggedIn st"
  "email (handleStatusChange_begin api i ns st) = email st"
  "isAdmin (handleStatusChange_begin api i ns st) = isAdmin st"
  "isPrincipal (handleStatusChange_begin api i ns st) = isPrincipal st"
  "department (handleStatusChange_begin api i ns st) = department st"
  by (simp_all add: handleStatusChange_begin_def Let_def fetch_session)

lemma handleStatusChange_end_session:
  "loggedIn (handleStatusChange_end i ns r resp st) = loggedIn st"
  "email (handleStatusChange_end i ns r resp st) = email st"
  "isAdmin (handleStatusChange_end i ns r resp st) = isAdmin st"
  "isPrincipal (handleStatusChange_end i ns r resp st) = isPrincipal st"
  "department (handleStatusChange_end i ns r resp st) = department st"
  by (simp_all add: handleStatusChange_end_def showNotification_session split: response.splits)

lemma handleStatusChange_session:
  "loggedIn (handleStatusChange api i ns resp st) = loggedIn st"
  "email (handleStatusChange api i ns resp st) = email st"
  "isAdmin (handleStatusChange api i ns resp st) = isAdmin st"
  "isPrincipal (handleStatusChange api i ns resp st) = isPrincipal st"
  "department (handleStatusChange api i ns resp st) = department st"
  by (simp_all add: handleStatusChange_def handleStatusChange_begin_session
      handleStatusChange_end_session)

lemma handleView_begin_session:
  "loggedIn (handleView_begin api i st) = loggedIn st"
  "email (handleView_begin api i st) = email st"
  "isAdmin (handleView_begin api i st) = isAdmin st"
  "isPrincipal (handleView_begin api i st) = isPrincipal st"
  "department (handleView_begin api i st) = department st"
  by (simp_all add: handleView_begin_def Let_def fetch_session)

lemma handleView_end_session:
  "loggedIn (handleView_end resp st) = loggedIn st"
  "email (handleView_end resp st) = email st"
  "isAdmin (handleView_end resp st) = isAdmin st"
  "isPrincipal (handleView_end resp st) = isPrincipal st"
  "department (handleView_end resp st) = department st"
  by (simp_all add: handleView_end_def showNotification_session split: response.splits)

lemma handleView_session:
  "loggedIn (handleView api i resp st) = loggedIn st"
  "email (handleView api i resp st) = email st"
  "isAdmin (handleView api i resp st) = isAdmin st"
  "isPrincipal (handleView api i resp st) = isPrincipal st"
  "department (handleView api i resp st) = department st"
  by (simp_all add: handleView_def handleView_begin_session handleView_end_session)

lemma onSubmit_begin_session:
  "loggedIn (onSubmit_begin api es st) = loggedIn st"
  "email (onSubmit_begin api es st) = email st"
  "isAdmin (onSubmit_begin api es st) = isAdmin st"
  "isPrincipal (onSubmit_begin api es st) = isPrincipal st"
  "department (onSubmit_begin api es st) = department st"
  by (simp_all add: onSubmit_begin_def Let_def fetch_session)

lemma onSubmit_answer_session:
  "loggedIn (onSubmit_answer api r resp st) = loggedIn st"
  "email (onSubmit_answer api r resp st) = email st"
  "isAdmin (onSubmit_answer api r resp st) = isAdmin st"
  "isPrincipal (onSubmit_answer api r resp st) = isPrincipal st"
  "department (onSubmit_answer api r resp st) = department st"
  by (simp_all add: onSubmit_answer_def showNotification_session loadSuggestions_begin_session
      split: response.splits)

lemma onSubmit_end_session:
  "loggedIn (onSubmit_end resp st) = loggedIn st"
  "email (onSubmit_end resp st) = email st"
  "isAdmin (onSubmit_end resp st) = isAdmin st"
  "isPrincipal (onSubmit_end resp st) = isPrincipal st"
  "department (onSubmit_end resp st) = department st"
  by (simp_all add: onSubmit_end_def showNotification_session loadSuggestions_end_session)

lemma onSubmit_session:
  "loggedIn (onSubmit api es resp resp2 st) = loggedIn st"
  "email (onSubmit api es resp resp2 st) = email st"
  "isAdmin (onSubmit api es resp resp2 st) = isAdmin st"
  "isPrincipal (onSubmit api es resp resp2 st) = isPrincipal st"
  "department (onSubmit api es resp resp2 st) = department st"
  by (simp_all add: onSubmit_def Let_def onSubmit_begin_session onSubmit_answer_session
      onSubmit_end_session split: response.splits)

lemma login_begin_session:
  "loggedIn (handleCredentialResponse_begin api c st) = loggedIn st"
  "email (handleCredentialResponse_begin api c st) = email st"
  "isAdmin (handleCredentialResponse_begin api c st) = isAdmin st"
  "isPrincipal (handleCredentialResponse_begin api c st) = isPrincipal st"
  "department (handleCredentialResponse_begin api c st) = department st"
  by (simp_all add: handleCredentialResponse_begin_def showNotification_session fetch_session)

lemma login_end_inv:
  assumes "\<not> loggedIn st \<longrightarrow> session_empty st"
  shows "\<not> loggedIn (handleCredentialResponse_end resp st) \<longrightarrow>
         session_empty (handleCredentialResponse_end resp st)"
  using assms
  by (auto simp: handleCredentialResponse_end_def showNotification_session session_empty_def
      split: response.splits)

lemma login_failure_session:
  assumes "r = Threw \<or> (\<exists>e. r = NotOk e) \<or> c = None \<or> c = Some ''''"
  shows "loggedIn (handleCredentialResponse api c r st) = loggedIn st"
    "email (handleCredentialResponse api c r st) = email st"
    "isAdmin (handleCredentialResponse api c r st) = isAdmin st"
    "isPrincipal (handleCredentialResponse api c r st) = isPrincipal st"
    "department (handleCredentialResponse api c r st) = department st"
  using assms
  by (auto simp: handleCredentialResponse_def handleCredentialResponse_end_def
      no_credential_def login_begin_session showNotification_session
      split: response.splits option.splits)

lemma login_inv:
  assumes "\<not> loggedIn st \<longrightarrow> session_empty st"
  shows "\<not> loggedIn (handleCredentialResponse api c r st) \<longrightarrow>
         session_empty (handleCredentialResponse api c r st)"
proof (cases "no_credential c")
  case True
  with assms show ?thesis
    by (simp add: handleCredentialResponse_def login_begin_session session_empty_def)
next
  case False
  have "\<not> loggedIn (handleCredentialResponse_begin api c st) \<longrightarrow>
        session_empty (handleCredentialResponse_begin api c st)"
    using assms by (simp add: login_begin_session session_empty_def)
  then show ?thesis
    using False by (simp add: handleCredentialResponse_def login_end_inv)
qed

lemma logout_session: "\<not> loggedIn (handleLogout st) \<and> session_empty (handleLogout st)"
  by (simp add: handleLogout_def showNotification_def session_empty_def)

lemma reachable_inv: "reachable api st \<Longrightarrow> \<not> loggedIn st \<longrightarrow> session_empty st"
proof (induction rule: reachable.induct)
  case r_init
  show ?case by (simp add: init_def session_empty_def)
next
  case (r_login st c ri)
  then show ?case using login_inv by blast
next
  case (r_login_end st ri)
  then show ?case using login_end_inv by blast
next
  case (r_logout st)
  show ?case using logout_session by blast
qed (simp_all add: session_empty_def advance_session loadSuggestions_session
    handleRefresh_session handleDelete_session handleStatusChange_session handleView_session
    onSubmit_session closeView_def login_begin_session loadSuggestions_begin_session
    loadSuggestions_end_session handleRefresh_begin_session handleRefresh_end_session
    handleDelete_begin_session handleDelete_end_session handleStatusChange_begin_session
    handleStatusChange_end_session handleView_begin_session handleView_end_session
    onSubmit_begin_session onSubmit_answer_session onSubmit_end_session)
section \<open>The second part of delete and of status change\<close>

text \<open>
  What the part after the answer does with the cache and with the viewed
  suggestion, for the render \<open>r\<close> of the click and the current state \<open>st\<close>.
\<close>

lemma handleDelete_end_Ok:
  "suggestions (handleDelete_end i r (Ok u) st) = filter (\<lambda>s. s_id s \<noteq> i) (suggestions st)"
  "viewSuggestion (handleDelete_end i r (Ok u) st)
     = (case viewSuggestion r of
          None \<Rightarrow> viewSuggestion st
        | Some v \<Rightarrow> if s_id v = i then None else viewSuggestion st)"
  by (simp_all add: handleDelete_end_def showNotification_def)

lemma handleDelete_end_failure:
  "suggestions (handleDelete_end i r (NotOk e) st) = suggestions st"
  "suggestions (handleDelete_end i r Threw st) = suggestions st"
  by (simp_all add: handleDelete_end_def showNotification_def)

lemma handleStatusChange_end_Ok:
  "suggestions (handleStatusChange_end i ns r (Ok u) st)
     = map (\<lambda>s. if s_id s = i then u else s) (suggestions st)"
  "viewSuggestion (handleStatusChange_end i ns r (Ok u) st)
     = (case viewSuggestion r of
          None \<Rightarrow> viewSuggestion st
        | Some v \<Rightarrow> if s_id v = i then Some u else viewSuggestion st)"
  by (simp_all add: handleStatusChange_end_def showNotification_def)

text \<open>
  In the run in which nothing happens between the click and the answer, the
  viewed suggestion is cleared by a delete, and replaced by a status change,
  exactly when its id is the one of the operation.
\<close>

lemma handleDelete_uninterleaved:
  "viewSuggestion (handleDelete api i True (Ok u) st)
     = (case viewSuggestion st of
          None \<Rightarrow> None
        | Some v \<Rightarrow> if s_id v = i then None else Some v)"
  by (simp add: handleDelete_def handleDelete_begin_def handleDelete_end_def fetch_def
      showNotification_def split: option.splits)

lemma handleStatusChange_uninterleaved:
  "viewSuggestion (handleStatusChange api i ns (Ok u) st)
     = (case viewSuggestion st of
          None \<Rightarrow> None
        | Some v \<Rightarrow> if s_id v = i then Some u else Some v)"
  by (simp add: handleStatusChange_def handleStatusChange_begin_def handleStatusChange_end_def
      fetch_def showNotification_def Let_def split: option.splits)

section \<open>Claims\<close>

subsection \<open>C1: a second notification and the timer of the first\<close>

text \<open>
  C1 as the specification states it fails. \<open>notify("A")\<close> at time 0 and
  \<open>notify("B")\<close> at 1000 ms: at 4000 ms, the deadline of the first timer, nothing is
  visible any more, although the timer of \<open>B\<close>, due at 5000 ms, is still pending.
  \<open>showNotification\<close> never cancels a timer.
\<close>

theorem notify_twice_counterexample:
  "notification (advance 4000 (showNotification ''B'' ''success''
      (advance 1000 (showNotification ''A'' ''success'' init)))) = None \<and>
   timers (advance 4000 (showNotification ''B'' ''success''
      (advance 1000 (showNotification ''A'' ''success'' init)))) = [5000]"
  by (simp add: showNotification_def advance_def init_def)

text \<open>
  Claim C1, amended. For two calls \<open>notify(A)\<close> then \<open>notify(B)\<close>, the first at a
  time when no timer is pending and the second before the first's 4-second
  expiry: the second notification replaces the first, both timers stay pending,
  \<open>B\<close> is the visible notification from the second call until the deadline of the
  first timer, and from that deadline on nothing is visible: the timer of \<open>A\<close>
  fires at its original deadline and clears \<open>B\<close>.
\<close>

theorem notify_twice:
  assumes "timers st = []" and "now st \<le> t1" and "t1 < now st + 4000"
  shows "notification (showNotification b tb (advance t1 (showNotification a ta st)))
           = Some \<lparr> message = b, type = tb \<rparr> \<and>
         timers (showNotification b tb (advance t1 (showNotification a ta st)))
           = [now st + 4000, t1 + 4000] \<and>
         (\<forall>t. t1 \<le> t \<and> t < now st + 4000 \<longrightarrow>
            notification (advance t (showNotification b tb (advance t1 (showNotification a ta st))))
              = Some \<lparr> message = b, type = tb \<rparr>) \<and>
         (\<forall>t. now st + 4000 \<le> t \<longrightarrow>
            notification (advance t (showNotification b tb (advance t1 (showNotification a ta st))))
              = None)"
  using assms by (simp add: showNotification_def advance_def)

theorem notify_twice_witness:
  "timers init = [] \<and> now init \<le> 1000 \<and> 1000 < now init + 4000 \<and>
   notification (advance 2000 (showNotification ''B'' ''success''
      (advance 1000 (showNotification ''A'' ''success'' init))))
     = Some \<lparr> message = ''B'', type = ''success'' \<rparr> \<and>
   notification (advance 4000 (showNotification ''B'' ''success''
      (advance 1000 (showNotification ''A'' ''success'' init)))) = None"
proof -
  have h: "timers init = []" "now init \<le> 1000" "1000 < now init + 4000"
    by (simp_all add: init_def)
  have n: "now init = 0" by (simp add: init_def)
  from notify_twice [OF h, of "''B''" "''success''" "''A''" "''success''"] n
  have "notification (advance 2000 (showNotification ''B'' ''success''
      (advance 1000 (showNotification ''A'' ''success'' init))))
     = Some \<lparr> message = ''B'', type = ''success'' \<rparr>"
    and "notification (advance 4000 (showNotification ''B'' ''success''
      (advance 1000 (showNotification ''A'' ''success'' init)))) = None"
    by simp_all
  with h show ?thesis by simp
qed

subsection \<open>C2: the filter pipeline\<close>

text \<open>
  C2 as the specification states it fails in two places. With the cache
  \<open>[1, 3, 2]\<close>, where record 3 has no \<open>createdAt\<close> and record 2 is newer than
  record 1, the comparator gives \<open>NaN\<close> against record 3 and the output for
  \<open>newest\<close> is \<open>[1, 3, 2]\<close>: record 1 stands before the newer record 2. And with a
  record whose title is capital alpha capital sigma and the search term capital
  sigma, the title is lowered to small alpha small final sigma and the term to
  small sigma: the output is empty, although the title ends with the search term
  itself.
\<close>

theorem filteredSuggestions_counterexample:
  "map s_id
     (cells (snd (filteredSuggestions toLowerCase_ascii ''all'' ''all'' '''' ''newest'' 0 heap_nodate))
            (fst (filteredSuggestions toLowerCase_ascii ''all'' ''all'' '''' ''newest'' 0 heap_nodate)))
     = [''1'', ''3'', ''2''] \<and>
   \<not> in_order ''newest''
     (cells (snd (filteredSuggestions toLowerCase_ascii ''all'' ''all'' '''' ''newest'' 0 heap_nodate))
            (fst (filteredSuggestions toLowerCase_ascii ''all'' ''all'' '''' ''newest'' 0 heap_nodate))) \<and>
   cells (snd (filteredSuggestions toLowerCase_sigma ''all'' ''all'' str_Sigma ''newest'' 0 heap_greek))
         (fst (filteredSuggestions toLowerCase_sigma ''all'' ''all'' str_Sigma ''newest'' 0 heap_greek))
     = [] \<and>
   or_empty (s_title sugg4) = [CHR 0xCE, CHR 0x91] @ str_Sigma"
  by code_simp

text \<open>
  Claim C2, amended. For every heap, every allocated cache array \<open>a\<close> whose
  records all have a valid \<open>createdAt\<close>, and every setting of the four controls,
  the array \<open>b\<close> that \<open>filteredSuggestions\<close> returns
  \<^item> is the stable sort, by the comparator of \<open>sortOrder\<close>, of the subsequence of the
    cache of exactly the records that satisfy together the status predicate
    (every record for \<open>all\<close>), the category predicate (every record for \<open>all\<close>) and
    the search predicate: \<open>searchTerm.toLowerCase()\<close> occurs in the lowered title
    or in the lowered description (\<open>selected\<close>);
  \<^item> has exactly those records as its elements;
  \<^item> is in descending order of \<open>createdAt\<close> for \<open>newest\<close> and in ascending order
    otherwise;
  \<^item> keeps the records of equal \<open>createdAt\<close> in their order in the cache;
  no array that existed before, the cache among them, is changed; running the
  pipeline again on the same inputs gives the same sequence; and an empty search
  term, which \<open>toLowerCase\<close> leaves empty, selects by status and category alone.
\<close>

theorem filteredSuggestions_correct:
  assumes "a < fresh h"
    and "valid_dates (cells h a)"
    and "filteredSuggestions lower sf cf q so a h = (b, h')"
  shows "cells h' b = js_sort (date_cmp so) (filter (selected lower sf cf q) (cells h a)) \<and>
         subseq (filter (selected lower sf cf q) (cells h a)) (cells h a) \<and>
         mset (cells h' b) = mset (filter (selected lower sf cf q) (cells h a)) \<and>
         in_order so (cells h' b) \<and>
         (\<forall>k. filter (\<lambda>s. s_createdAt s = k) (cells h' b)
              = filter (\<lambda>s. s_createdAt s = k) (filter (selected lower sf cf q) (cells h a))) \<and>
         (\<forall>c<fresh h. cells h' c = cells h c) \<and>
         (\<forall>b2 h2. filteredSuggestions lower sf cf q so a h' = (b2, h2) \<longrightarrow>
                  cells h2 b2 = cells h' b) \<and>
         (lower '''' = '''' \<and> q = '''' \<longrightarrow>
            (\<forall>s. selected lower sf cf q s
                 \<longleftrightarrow> (sf = ''all'' \<or> s_status s = sf) \<and> (cf = ''all'' \<or> s_category s = cf)))"
proof -
  let ?sel = "filter (selected lower sf cf q) (cells h a)"
  have valid: "\<forall>x\<in>set ?sel. s_createdAt x \<noteq> None"
    using assms(2) by (simp add: valid_dates_def list_all_iff)
  have out: "cells h' b = js_sort (date_cmp so) ?sel"
    using filteredSuggestions_out [OF assms(3)] unfolding filter_selected .
  have frame: "\<forall>c<fresh h. cells h' c = cells h c"
    using filteredSuggestions_frame [OF assms(3)] by blast
  have cache: "cells h' a = cells h a"
    using frame assms(1) by blast
  have again: "cells h2 b2 = cells h' b"
    if "filteredSuggestions lower sf cf q so a h' = (b2, h2)" for b2 h2
    using filteredSuggestions_out [OF that] out cache unfolding filter_selected by simp
  have order: "in_order so (cells h' b)"
    using in_order_js_sort [OF valid] out by simp
  have stable: "filter (\<lambda>s. s_createdAt s = k) (cells h' b)
                = filter (\<lambda>s. s_createdAt s = k) ?sel" for k
    using js_sort_stable [OF valid] out by simp
  have empty: "lower '''' = '''' \<and> q = '''' \<longrightarrow>
      (\<forall>s. selected lower sf cf q s
           \<longleftrightarrow> (sf = ''all'' \<or> s_status s = sf) \<and> (cf = ''all'' \<or> s_category s = cf))"
    using selected_empty_search by blast
  show ?thesis
    using out frame again order stable empty by (simp add: mset_js_sort)
qed

theorem filteredSuggestions_correct_witness:
  "0 < fresh heap0 \<and> valid_dates (cells heap0 0) \<and>
   map s_id
     (cells (snd (filteredSuggestions toLowerCase_ascii ''all'' ''all'' ''wifi'' ''newest'' 0 heap0))
            (fst (filteredSuggestions toLowerCase_ascii ''all'' ''all'' ''wifi'' ''newest'' 0 heap0)))
     = [''2''] \<and>
   cells (snd (filteredSuggestions toLowerCase_ascii ''all'' ''all'' ''wifi'' ''newest'' 0 heap0)) 0
     = [sugg1, sugg2]"
proof -
  let ?r = "filteredSuggestions toLowerCase_ascii ''all'' ''all'' ''wifi'' ''newest'' 0 heap0"
  have h: "0 < fresh heap0" by (simp add: heap0_def)
  have v: "valid_dates (cells heap0 0)"
    by (simp add: heap0_def valid_dates_def sugg1_def sugg2_def)
  have e: "?r = (fst ?r, snd ?r)" by simp
  have sel: "filter (selected toLowerCase_ascii ''all'' ''all'' ''wifi'') [sugg1, sugg2] = [sugg2]"
  proof -
    have "\<not> search_pred toLowerCase_ascii ''wifi'' sugg1" by code_simp
    moreover have "status_pred ''all'' sugg2 \<and> category_pred ''all'' sugg2 \<and>
        search_pred toLowerCase_ascii ''wifi'' sugg2"
      by code_simp
    ultimately show ?thesis by (simp add: selected_preds)
  qed
  from filteredSuggestions_correct [OF h v e]
  have "cells (snd ?r) (fst ?r)
          = js_sort (date_cmp ''newest'')
              (filter (selected toLowerCase_ascii ''all'' ''all'' ''wifi'') (cells heap0 0))"
    and "\<forall>c<fresh heap0. cells (snd ?r) c = cells heap0 c"
    by blast+
  then show ?thesis
    using h v sel by (simp add: heap0_def sugg2_def)
qed

subsection \<open>C3: after logout\<close>




subsection \<open>C4: a successful status change\<close>

text \<open>
  C4 as the specification states it fails in the text of the notification: for
  the status \<open>resolved\<close> the message has the status in double quotes, so it is not
  \<open>Status updated to\<close> followed by the status name.
\<close>

theorem status_message_counterexample:
  \<open>notification (handleStatusChange ''https://api'' ''1'' ''resolved''
      (Ok (sugg1\<lparr> s_status := ''resolved'' \<rparr>)) admin0)
     = Some \<lparr> message = ''Status updated to "resolved"'', type = ''success'' \<rparr> \<and>
   ''Status updated to "resolved"'' \<noteq> ''Status updated to '' @ ''resolved''\<close>
  by (simp add: handleStatusChange_def handleStatusChange_begin_def handleStatusChange_end_def
      fetch_def showNotification_def Let_def)

text \<open>
  Claim C4, amended. For every id and new status, a successful
  \<open>handleStatusChange\<close> sends a PATCH request with the body \<open>{status, updatedBy}\<close>,
  where \<open>updatedBy\<close> is \<open>Principal\<close> when \<open>isPrincipal\<close> holds and \<open>HOD\<close> otherwise,
  replaces every cache entry of that id by the record the server returned, and
  emits a success notification whose message is \<open>Status updated to\<close> followed by
  the status name in double quotes.
\<close>

theorem status_change_success:
  \<open>(isPrincipal st \<longrightarrow>
      requests (handleStatusChange api i ns (Ok u) st) = requests st @
        [\<lparr> http_method = ''PATCH'', url = api @ ''/api/admin/suggestions/'' @ i,
           body = Some [(''status'', ns), (''updatedBy'', ''Principal'')] \<rparr>]) \<and>
   (\<not> isPrincipal st \<longrightarrow>
      requests (handleStatusChange api i ns (Ok u) st) = requests st @
        [\<lparr> http_method = ''PATCH'', url = api @ ''/api/admin/suggestions/'' @ i,
           body = Some [(''status'', ns), (''updatedBy'', ''HOD'')] \<rparr>]) \<and>
   suggestions (handleStatusChange api i ns (Ok u) st)
     = map (\<lambda>s. if s_id s = i then u else s) (suggestions st) \<and>
   notification (handleStatusChange api i ns (Ok u) st)
     = Some \<lparr> message = ''Status updated to "'' @ ns @ ''"'', type = ''success'' \<rparr>\<close>
  by (simp add: handleStatusChange_def handleStatusChange_begin_def handleStatusChange_end_def
      fetch_def showNotification_def Let_def)

theorem status_change_success_witness:
  \<open>\<not> isPrincipal admin0 \<and>
   last (requests (handleStatusChange ''https://api'' ''1'' ''resolved''
      (Ok (sugg1\<lparr> s_status := ''resolved'', s_updatedBy := ''HOD'' \<rparr>)) admin0))
     = \<lparr> http_method = ''PATCH'', url = ''https://api/api/admin/suggestions/1'',
         body = Some [(''status'', ''resolved''), (''updatedBy'', ''HOD'')] \<rparr> \<and>
   map s_status (suggestions (handleStatusChange ''https://api'' ''1'' ''resolved''
      (Ok (sugg1\<lparr> s_status := ''resolved'', s_updatedBy := ''HOD'' \<rparr>)) admin0))
     = [''resolved'', ''resolved''] \<and>
   notification (handleStatusChange ''https://api'' ''1'' ''resolved''
      (Ok (sugg1\<lparr> s_status := ''resolved'', s_updatedBy := ''HOD'' \<rparr>)) admin0)
     = Some \<lparr> message = ''Status updated to "resolved"'', type = ''success'' \<rparr>\<close>
proof -
  have p: "\<not> isPrincipal admin0"
    by (simp add: admin0_def login_failure_session handleCredentialResponse_def
        handleCredentialResponse_begin_def handleCredentialResponse_end_def no_credential_def
        showNotification_def fetch_def ident_hod_def init_def)
  have s: "suggestions admin0 = [sugg1, sugg2]"
    by (simp add: admin0_def)
  from status_change_success [of admin0 "''https://api''" "''1''" "''resolved''"
      "sugg1\<lparr> s_status := ''resolved'', s_updatedBy := ''HOD'' \<rparr>"] p s
  show ?thesis by (simp add: sugg1_def sugg2_def)
qed
subsection \<open>C5: loading\<close>

text \<open>
  Claim C5. For every \<open>loadSuggestions\<close> that issues its request (the email of the
  session is not empty): on success with a list the cache is that list, whatever
  it held before; on a response that is not ok and on an exception the cache is
  empty and an error notification is emitted; and loading twice with the same
  answer of the backend gives the same cache as loading once.
\<close>

theorem load_replaces_cache:
  assumes "email st \<noteq> ''''"
  shows "suggestions (loadSuggestions api (Ok (IsArray xs)) st) = xs \<and>
         suggestions (loadSuggestions api (NotOk e) st) = [] \<and>
         notification (loadSuggestions api (NotOk e) st)
           = Some \<lparr> message = ''Failed to load suggestions'', type = ''error'' \<rparr> \<and>
         suggestions (loadSuggestions api Threw st) = [] \<and>
         notification (loadSuggestions api Threw st)
           = Some \<lparr> message = ''Failed to load suggestions. Check console.'', type = ''error'' \<rparr> \<and>
         suggestions (loadSuggestions api r (loadSuggestions api r st))
           = suggestions (loadSuggestions api r st)"
  using assms
  by (cases r) (simp_all add: loadSuggestions_def loadSuggestions_begin_def
      loadSuggestions_end_def fetch_def showNotification_def Let_def)

theorem load_replaces_cache_witness:
  "email (student0\<lparr> suggestions := [sugg1] \<rparr>) \<noteq> '''' \<and>
   suggestions (loadSuggestions ''https://api'' (Ok (IsArray [sugg2]))
      (student0\<lparr> suggestions := [sugg1] \<rparr>)) = [sugg2] \<and>
   suggestions (loadSuggestions ''https://api'' Threw (student0\<lparr> suggestions := [sugg1] \<rparr>)) = []"
proof -
  have e: "email (student0\<lparr> suggestions := [sugg1] \<rparr>) \<noteq> ''''"
    by (simp add: student0_def handleCredentialResponse_def handleCredentialResponse_begin_def
        handleCredentialResponse_end_def no_credential_def showNotification_def fetch_def
        ident0_def init_def)
  from load_replaces_cache [OF e, of "''https://api''" "[sugg2]"] e show ?thesis by simp
qed

subsection \<open>C6: deleting\<close>

text \<open>
  Claim C6 holds of the run in which nothing happens between the click and the
  answer (\<open>handleDelete_uninterleaved\<close>), and the cache is filtered and is left
  alone on a failure in every run (\<open>handleDelete_end_Ok\<close>,
  \<open>handleDelete_end_failure\<close>). The code breaks it in this run: with records 1 and 2
  in the cache and nothing viewed, the student confirms Delete on row 2; before
  the DELETE is answered, View on row 2 is clicked and answered, so record 2 is
  the viewed suggestion; then the DELETE is answered with success. Record 2
  leaves the cache and stays the viewed suggestion: the handler tests the
  \<open>viewSuggestion\<close> of the render of the click, which was \<open>null\<close>.
\<close>

theorem delete_leaves_selection:
  "offered toLowerCase_ascii student1 (Delete ''2'') \<and>
   viewSuggestion student1 = None \<and>
   offered toLowerCase_ascii delete_sent (View ''2'') \<and>
   viewSuggestion delete_viewed = Some sugg2 \<and>
   s_id sugg2 = ''2'' \<and>
   map s_id (suggestions delete_answered) = [''1''] \<and>
   viewSuggestion delete_answered = Some sugg2"
  by code_simp

subsection \<open>C7: a status change and the viewed suggestion\<close>

text \<open>
  Claim C7 holds of the run in which nothing happens between the click and the
  answer (\<open>handleStatusChange_uninterleaved\<close>). The code breaks it in this run: the
  head of department views record 1 and activates Resolve on row 1; before the
  PATCH is answered the view is closed and View on row 2 is clicked and answered,
  so record 2 is the viewed suggestion; then the PATCH is answered with the
  resolved record 1. The viewed suggestion, which had another id than the status
  change, is replaced by record 1: the handler tests the \<open>viewSuggestion\<close> of the
  render of the click. In a second run nothing is viewed at the click of Resolve
  on row 1, and View on row 1 is answered with the pending record before the
  PATCH is: the cache gets the resolved record, and the viewed suggestion, which
  has the id of the status change, keeps the pending one.
\<close>

theorem status_change_replaces_other_selection:
  "offered toLowerCase_ascii status_viewing (StatusChange ''1'' ''resolved'') \<and>
   viewSuggestion status_viewing = Some sugg1 \<and>
   offered toLowerCase_ascii (closeView status_sent) (View ''2'') \<and>
   viewSuggestion status_other_view = Some sugg2 \<and>
   s_id sugg2 \<noteq> ''1'' \<and>
   viewSuggestion status_answered = Some sugg1_resolved \<and>
   s_id sugg1_resolved = ''1'' \<and>
   offered toLowerCase_ascii admin0 (StatusChange ''1'' ''resolved'') \<and>
   viewSuggestion admin0 = None \<and>
   offered toLowerCase_ascii status2_sent (View ''1'') \<and>
   suggestions status2_answered = [sugg1_resolved, sugg2] \<and>
   viewSuggestion status2_answered = Some sugg1 \<and>
   sugg1 \<noteq> sugg1_resolved"
  by code_simp

subsection \<open>C8: a declined confirmation\<close>

text \<open>
  Claim C8. For every id, when the user declines the confirmation, \<open>handleDelete\<close>
  returns the state it started from: the cache, the log of requests, the
  notification and the pending timers are unchanged.
\<close>

theorem delete_declined:
  "handleDelete api i False resp st = st"
  by (simp add: handleDelete_def)

theorem delete_declined_witness:
  "handleDelete ''https://api'' ''1'' False (Ok ()) admin0 = admin0 \<and>
   suggestions (handleDelete ''https://api'' ''1'' False (Ok ()) admin0) = [sugg1, sugg2]"
  using delete_declined [of "''https://api''" "''1''" "Ok ()" admin0]
  by (simp add: admin0_def)

subsection \<open>C9: the session is never partially populated\<close>

text \<open>
  Claim C9. In every reachable state, \<open>loggedIn = false\<close> implies that email,
  isAdmin, isPrincipal and department are at their defaults; from such a state a
  login that fails (a response that is not ok, an exception, or no credential)
  leaves the session unauthenticated with every identity field at its default;
  and \<open>handleLogout\<close> restores that from any state.
\<close>

theorem session_never_partial:
  assumes "reachable api st"
  shows "(\<not> loggedIn st \<longrightarrow> session_empty st) \<and>
         (\<not> loggedIn st \<longrightarrow>
            \<not> loggedIn (handleCredentialResponse api c (NotOk e) st) \<and>
            session_empty (handleCredentialResponse api c (NotOk e) st) \<and>
            \<not> loggedIn (handleCredentialResponse api c Threw st) \<and>
            session_empty (handleCredentialResponse api c Threw st) \<and>
            \<not> loggedIn (handleCredentialResponse api None r st) \<and>
            session_empty (handleCredentialResponse api None r st)) \<and>
         \<not> loggedIn (handleLogout st) \<and> session_empty (handleLogout st)"
proof -
  have inv: "\<not> loggedIn st \<longrightarrow> session_empty st"
    using assms by (rule reachable_inv)
  have "\<not> loggedIn (handleCredentialResponse api c r' st) \<and>
        session_empty (handleCredentialResponse api c r' st)"
    if "\<not> loggedIn st" and "r' = Threw \<or> (\<exists>e. r' = NotOk e) \<or> c = None \<or> c = Some ''''"
    for c r'
    using that inv login_failure_session [OF that(2), of api st]
    by (simp add: session_empty_def)
  then show ?thesis
    using inv logout_session by blast
qed

theorem session_never_partial_witness:
  "reachable ''https://api'' (handleCredentialResponse ''https://api'' (Some ''tok'') (NotOk None) init) \<and>
   \<not> loggedIn (handleCredentialResponse ''https://api'' (Some ''tok'') (NotOk None) init) \<and>
   session_empty (handleCredentialResponse ''https://api'' (Some ''tok'') (NotOk None) init) \<and>
   session_empty (handleLogout student0)"
proof -
  have r0: "reachable ''https://api'' init" by (rule r_init)
  have r1: "reachable ''https://api''
      (handleCredentialResponse ''https://api'' (Some ''tok'') (NotOk None) init)"
    by (rule r_login [OF r0])
  have r2: "reachable ''https://api'' student0"
    unfolding student0_def by (rule r_login [OF r0])
  have n: "\<not> loggedIn init" by (simp add: init_def)
  from session_never_partial [OF r0, of "Some ''tok''" None] n
    session_never_partial [OF r2] r1
  show ?thesis by blast
qed

subsection \<open>C10: a body that is not an array\<close>

text \<open>
  Claim C10. When \<open>loadSuggestions\<close> issues its request and gets an ok response
  whose body is not an array, the cache becomes empty, the notification is the
  one that was there and no timer is added: nothing is emitted.
\<close>

theorem load_not_array:
  assumes "email st \<noteq> ''''"
  shows "suggestions (loadSuggestions api (Ok NotArray) st) = [] \<and>
         notification (loadSuggestions api (Ok NotArray) st) = notification st \<and>
         timers (loadSuggestions api (Ok NotArray) st) = timers st"
  using assms
  by (simp add: loadSuggestions_def loadSuggestions_begin_def loadSuggestions_end_def
      fetch_def Let_def)

theorem load_not_array_witness:
  "email student0 \<noteq> '''' \<and>
   suggestions (loadSuggestions ''https://api'' (Ok NotArray) (student0\<lparr> suggestions := [sugg1] \<rparr>)) = [] \<and>
   notification (loadSuggestions ''https://api'' (Ok NotArray) (student0\<lparr> suggestions := [sugg1] \<rparr>))
     = Some \<lparr> message = ''Logged in successfully!'', type = ''success'' \<rparr>"
proof -
  have e: "email (student0\<lparr> suggestions := [sugg1] \<rparr>) \<noteq> ''''"
    by (simp add: student0_def handleCredentialResponse_def handleCredentialResponse_begin_def
        handleCredentialResponse_end_def no_credential_def showNotification_def fetch_def
        ident0_def init_def)
  have n: "notification (student0\<lparr> suggestions := [sugg1] \<rparr>)
             = Some \<lparr> message = ''Logged in successfully!'', type = ''success'' \<rparr>"
    by (simp add: student0_def handleCredentialResponse_def handleCredentialResponse_begin_def
        handleCredentialResponse_end_def no_credential_def showNotification_def fetch_def
        ident0_def init_def)
  from load_not_array [OF e, of "''https://api''"] e n show ?thesis by simp
qed

end
